theory Spec2Isabelle
  imports Main
begin

section \<open>Data model of \<open>null-safety.ts\<close>\<close>

text \<open>
  The class \<open>NullSafety<TSource>\<close> has one field, \<open>source\<close>, of type
  \<open>TSource | null | undefined\<close>. At run time such a field holds \<open>undefined\<close>,
  \<open>null\<close> or some other value. A union type is not a sum type: when \<open>TSource\<close> is itself
  instantiated with a type that admits \<open>null\<close> (say \<open>string | null\<close>), the field still only
  holds one of those three kinds of value. The type \<open>'a nullable\<close> therefore stands for the
  run-time values, with \<open>'a\<close> the values that are neither \<open>null\<close> nor \<open>undefined\<close>, and
  every parameter the source declares with type \<open>TSource\<close> or \<open>TResult\<close> is a
  \<open>'a nullable\<close> as well.
\<close>

datatype 'a nullable = Undefined | Null | Value 'a

record 'a NullSafety =
  source :: "'a nullable"

text \<open>
  A getter is a caller-supplied function and may have effects of its own. They are made
  explicit by state passing: a getter takes the caller's state \<open>'s\<close> and returns its
  result with the new state, so that whether (and how often, and on what argument) a method
  invokes its getter is visible in the state the method returns.
\<close>

type_synonym ('a, 'b, 's) Getter = "'a \<Rightarrow> 's \<Rightarrow> 'b nullable \<times> 's"

text \<open>
  \<open>altResult?: TResult\<close> is an optional parameter: a call may omit the argument, and
  the parameter is then bound to \<open>undefined\<close>, exactly as when \<open>undefined\<close> is passed.
  \<open>optional_arg\<close> is that binding: \<open>None\<close> is an omitted argument, \<open>Some x\<close> a passed one.
\<close>

fun optional_arg :: "'b nullable option \<Rightarrow> 'b nullable" where
  "optional_arg None = Undefined"
| "optional_arg (Some x) = x"

section \<open>The class\<close>

text \<open>The constructor: \<open>this.source = source\<close>.\<close>

definition new_NullSafety :: "'a nullable \<Rightarrow> 'a NullSafety" where
  "new_NullSafety src = \<lparr>source = src\<rparr>"

text \<open>\<open>static start(source)\<close>: \<open>return new NullSafety<TSource>(source)\<close>.\<close>

definition start :: "'a nullable \<Rightarrow> 'a NullSafety" where
  "start src = new_NullSafety src"

text \<open>
  \<open>next(getter, altResult?)\<close>. The first statement takes \<open>this.source\<close> itself when it
  is \<open>undefined\<close> or \<open>null\<close> and calls the getter otherwise; the second replaces a
  \<open>undefined\<close> or \<open>null\<close> result by \<open>altResult\<close> when \<open>altResult !== undefined\<close>.
\<close>

definition "next" ::
  "('a, 'b, 's) Getter \<Rightarrow> 'b nullable \<Rightarrow> 'a NullSafety \<Rightarrow> 's \<Rightarrow> 'b NullSafety \<times> 's" where
  "next getter altResult this s =
     (let (result, s') =
            (case source this of
               Undefined \<Rightarrow> (Undefined, s)
             | Null \<Rightarrow> (Null, s)
             | Value v \<Rightarrow> getter v s);
          result = (if (result = Undefined \<or> result = Null) \<and> altResult \<noteq> Undefined
                    then altResult else result)
      in (new_NullSafety result, s'))"

text \<open>
  \<open>nextWithAny(getter, altResult?)\<close>: \<open>result = getter(this.source)\<close>, whatever the
  field holds, then the same replacement.
\<close>

definition nextWithAny ::
  "('a nullable, 'b, 's) Getter \<Rightarrow> 'b nullable \<Rightarrow> 'a NullSafety \<Rightarrow> 's \<Rightarrow> 'b NullSafety \<times> 's"
  where
  "nextWithAny getter altResult this s =
     (let (result, s') = getter (source this) s;
          result = (if (result = Undefined \<or> result = Null) \<and> altResult \<noteq> Undefined
                    then altResult else result)
      in (new_NullSafety result, s'))"

text \<open>\<open>result()\<close>: \<open>return this.source\<close>.\<close>

definition result :: "'a NullSafety \<Rightarrow> 'a nullable" where
  "result this = source this"

text \<open>
  \<open>resultAlty(altResult)\<close>: the field when it is neither \<open>null\<close> nor \<open>undefined\<close>,
  \<open>altResult\<close> otherwise.
\<close>

definition resultAlty :: "'a nullable \<Rightarrow> 'a NullSafety \<Rightarrow> 'a nullable" where
  "resultAlty altResult this =
     (if source this \<noteq> Null \<and> source this \<noteq> Undefined then source this else altResult)"

section \<open>Getters used in the statements\<close>

text \<open>A getter without effects.\<close>

definition pure_getter :: "('a \<Rightarrow> 'b nullable) \<Rightarrow> ('a, 'b, 's) Getter" where
  "pure_getter f x s = (f x, s)"

text \<open>
  A getter instrumented with a call log: each invocation appends its argument to the log,
  so the log counts the invocations and records what was passed.
\<close>

definition logged :: "('a \<Rightarrow> 'b nullable) \<Rightarrow> ('a, 'b, 'a list) Getter" where
  "logged f x calls = (f x, calls @ [x])"

section \<open>Objects of the scenario\<close>

text \<open>
  The values of the documented scenarios: strings and object literals. Reading a property
  that an object does not have gives \<open>undefined\<close>; a property can hold \<open>null\<close>.
\<close>

datatype jsval = JString string | JObject "(string \<times> jsval nullable) list"

fun get_prop :: "string \<Rightarrow> jsval \<Rightarrow> jsval nullable" where
  "get_prop k (JObject ps) = (case map_of ps k of None \<Rightarrow> Undefined | Some v \<Rightarrow> v)"
| "get_prop k (JString _) = Undefined"

section \<open>Instances in a store\<close>

text \<open>
  To speak about mutation, instances live in a store and are denoted by references. The
  store is the list of the instances allocated so far and a reference is an index into it.
  \<open>new NullSafety(...)\<close> allocates: it appends the constructed instance and returns the
  fresh reference. The only assignment to \<open>source\<close> in the class is the constructor's, on
  the instance being created; the methods read \<open>this.source\<close>. The field is \<open>private\<close>,
  so a getter has no access to the store: it acts on the caller's state only. A method
  called on a reference outside the store has no result (\<open>None\<close>).
\<close>

type_synonym ref = nat

type_synonym 'a store = "'a NullSafety list"

definition allocate :: "'a NullSafety \<Rightarrow> 'a store \<Rightarrow> ref \<times> 'a store" where
  "allocate obj h = (length h, h @ [obj])"

definition start_ref :: "'a nullable \<Rightarrow> 'a store \<Rightarrow> ref \<times> 'a store" where
  "start_ref src h = allocate (start src) h"

definition next_ref ::
  "('a, 'a, 's) Getter \<Rightarrow> 'a nullable \<Rightarrow> ref \<Rightarrow> 'a store \<Rightarrow> 's \<Rightarrow> (ref \<times> 'a store \<times> 's) option"
  where
  "next_ref getter altResult this h s =
     (if this < length h
      then (let (obj, s') = next getter altResult (h ! this) s;
                (r, h') = allocate obj h
            in Some (r, h', s'))
      else None)"

definition nextWithAny_ref ::
  "('a nullable, 'a, 's) Getter \<Rightarrow> 'a nullable \<Rightarrow> ref \<Rightarrow> 'a store \<Rightarrow> 's
     \<Rightarrow> (ref \<times> 'a store \<times> 's) option"
  where
  "nextWithAny_ref getter altResult this h s =
     (if this < length h
      then (let (obj, s') = nextWithAny getter altResult (h ! this) s;
                (r, h') = allocate obj h
            in Some (r, h', s'))
      else None)"

definition result_ref :: "ref \<Rightarrow> 'a store \<Rightarrow> ('a nullable \<times> 'a store) option" where
  "result_ref this h = (if this < length h then Some (result (h ! this), h) else None)"

definition resultAlty_ref ::
  "'a nullable \<Rightarrow> ref \<Rightarrow> 'a store \<Rightarrow> ('a nullable \<times> 'a store) option" where
  "resultAlty_ref altResult this h =
     (if this < length h then Some (resultAlty altResult (h ! this), h) else None)"

text \<open>\<open>n\<close> calls of \<open>result()\<close> in a row on the same reference: the values returned, in order.\<close>

fun result_times :: "nat \<Rightarrow> ref \<Rightarrow> 'a store \<Rightarrow> ('a nullable list \<times> 'a store) option" where
  "result_times 0 this h = Some ([], h)"
| "result_times (Suc n) this h =
     (case result_ref this h of
        None \<Rightarrow> None
      | Some (v, h') \<Rightarrow>
          (case result_times n this h' of
             None \<Rightarrow> None
           | Some (vs, h'') \<Rightarrow> Some (v # vs, h'')))"

section \<open>Creation and extraction\<close>

text \<open>
  C6. Round trip of creation and extraction: \<open>start\<close> stores exactly its argument, and
  \<open>result\<close> returns it, for a value and for each of the two absence markers alike; no
  transformation and no fallback is applied.
\<close>

theorem start_result_roundtrip:
  "result (start x) = x"
  by (simp add: result_def start_def new_NullSafety_def)

text \<open>
  C4. \<open>resultAlty v\<close> returns the held value when it is present, and \<open>v\<close> when the held
  value is \<open>null\<close> or \<open>undefined\<close>.
\<close>

theorem resultAlty_spec:
  "(source c = Value v \<longrightarrow> resultAlty alt c = Value v)
   \<and> (source c = Null \<or> source c = Undefined \<longrightarrow> resultAlty alt c = alt)"
  by (auto simp: resultAlty_def)

theorem resultAlty_spec_witness:
  "resultAlty (Value (JString ''default'')) (start (Value (JString ''held''))) = Value (JString ''held'')
   \<and> resultAlty (Value (JString ''default'')) (start Null) = Value (JString ''default'')
   \<and> resultAlty (Value (JString ''default'')) (start Undefined) = Value (JString ''default'')"
  using resultAlty_spec [of "start (Value (JString ''held''))" "JString ''held''"
                            "Value (JString ''default'')"]
        resultAlty_spec [of "start Null" "JString ''held''" "Value (JString ''default'')"]
        resultAlty_spec [of "start Undefined" "JString ''held''" "Value (JString ''default'')"]
  by (simp add: start_def new_NullSafety_def)

text \<open>
  C5. \<open>resultAlty\<close> never returns an absence marker: for every container and every
  fallback \<open>v\<close> of type \<open>T\<close>, a value that is neither \<open>null\<close> nor \<open>undefined\<close>, the
  result is a value of \<open>T\<close> again, never \<open>null\<close> and never \<open>undefined\<close>.
\<close>

theorem resultAlty_never_absent:
  "resultAlty (Value v) c \<noteq> Null \<and> resultAlty (Value v) c \<noteq> Undefined
   \<and> (\<exists>x. resultAlty (Value v) c = Value x)"
  by (cases "source c") (simp_all add: resultAlty_def)

theorem resultAlty_never_absent_witness:
  "resultAlty (Value (JString ''default'')) (start Null) \<noteq> Null
   \<and> resultAlty (Value (JString ''default'')) (start Null) \<noteq> Undefined
   \<and> resultAlty (Value (JString ''default'')) (start Undefined) \<noteq> Null
   \<and> resultAlty (Value (JString ''default'')) (start Undefined) \<noteq> Undefined"
  using resultAlty_never_absent [of "JString ''default''" "start Null"]
        resultAlty_never_absent [of "JString ''default''" "start Undefined"]
  by blast

section \<open>\<open>next\<close>\<close>

text \<open>
  C1. On a container holding \<open>null\<close> or \<open>undefined\<close>, \<open>next\<close> called without a
  fallback does not invoke its getter: the caller's state comes back unchanged, the result
  does not depend on the getter, and a logging getter logs nothing. The new container holds
  the marker the receiver held: \<open>null\<close> stays \<open>null\<close> and \<open>undefined\<close> stays
  \<open>undefined\<close>.
\<close>

theorem next_absent_short_circuit:
  assumes "source c = Null \<or> source c = Undefined"
  shows "snd (next getter (optional_arg None) c s) = s
       \<and> (\<forall>getter'. next getter' (optional_arg None) c s = next getter (optional_arg None) c s)
       \<and> (source c = Null \<longrightarrow> result (fst (next getter (optional_arg None) c s)) = Null)
       \<and> (source c = Undefined
            \<longrightarrow> result (fst (next getter (optional_arg None) c s)) = Undefined)
       \<and> snd (next (logged f) (optional_arg None) c calls) = calls"
  using assms by (auto simp: next_def result_def new_NullSafety_def)

theorem next_absent_short_circuit_witness:
  "snd (next (logged (get_prop ''a'')) (optional_arg None) (start Null) []) = []
   \<and> result (fst (next (logged (get_prop ''a'')) (optional_arg None) (start Null) [])) = Null
   \<and> snd (next (logged (get_prop ''a'')) (optional_arg None) (start Undefined) []) = []
   \<and> result (fst (next (logged (get_prop ''a'')) (optional_arg None) (start Undefined) []))
       = Undefined"
proof -
  have n: "source (start (Null :: jsval nullable)) = Null
           \<or> source (start (Null :: jsval nullable)) = Undefined"
    by (simp add: start_def new_NullSafety_def)
  have u: "source (start (Undefined :: jsval nullable)) = Null
           \<or> source (start (Undefined :: jsval nullable)) = Undefined"
    by (simp add: start_def new_NullSafety_def)
  show ?thesis
    using next_absent_short_circuit [OF n, of "logged (get_prop ''a'')" "[]" "get_prop ''a''" "[]"]
          next_absent_short_circuit [OF u, of "logged (get_prop ''a'')" "[]" "get_prop ''a''" "[]"]
    by (simp add: start_def new_NullSafety_def)
qed

text \<open>
  C2. On a container holding a present value \<open>v\<close>, \<open>next\<close> invokes the getter on \<open>v\<close>
  (the state returned is the getter's). When the getter's result \<open>r\<close> is present, the new
  container holds \<open>r\<close>, whatever fallback was given; when \<open>r\<close> is \<open>null\<close> or
  \<open>undefined\<close> and a fallback was supplied (\<open>altResult\<close> is not \<open>undefined\<close>), it holds
  the fallback.
\<close>

theorem next_present:
  assumes "source c = Value v" and "getter v s = (r, s')"
  shows "(r \<noteq> Null \<and> r \<noteq> Undefined \<longrightarrow> result (fst (next getter alt c s)) = r)
       \<and> ((r = Null \<or> r = Undefined) \<and> alt \<noteq> Undefined
            \<longrightarrow> result (fst (next getter alt c s)) = alt)
       \<and> snd (next getter alt c s) = s'"
  using assms by (simp add: next_def result_def new_NullSafety_def)

theorem next_present_witness:
  "result (fst (next (pure_getter (get_prop ''title'')) (Value (JString ''title-unfetched''))
                  (start (Value (JObject [(''title'', Value (JString ''Home''))]))) ()))
     = Value (JString ''Home'')
   \<and> result (fst (next (pure_getter (get_prop ''text'')) (Value (JString ''title-unfetched''))
                  (start (Value (JObject [(''title'', Value (JString ''Home''))]))) ()))
     = Value (JString ''title-unfetched'')"
proof -
  let ?o = "JObject [(''title'', Value (JString ''Home''))]"
  let ?alt = "Value (JString ''title-unfetched'')"
  have c: "source (start (Value ?o)) = Value ?o"
    by (simp add: start_def new_NullSafety_def)
  have present: "pure_getter (get_prop ''title'') ?o () = (Value (JString ''Home''), ())"
    by (simp add: pure_getter_def)
  have absent: "pure_getter (get_prop ''text'') ?o () = (Undefined, ())"
    by (simp add: pure_getter_def)
  have is_present: "Value (JString ''Home'') \<noteq> Null \<and> Value (JString ''Home'') \<noteq> Undefined"
    by simp
  have is_absent: "((Undefined :: jsval nullable) = Null \<or> (Undefined :: jsval nullable) = Undefined)
                   \<and> ?alt \<noteq> Undefined"
    by simp
  have kept: "result (fst (next (pure_getter (get_prop ''title'')) ?alt (start (Value ?o)) ()))
                = Value (JString ''Home'')"
    using next_present [of "start (Value ?o)" ?o "pure_getter (get_prop ''title'')" "()"
                           "Value (JString ''Home'')" "()" ?alt, OF c present] is_present
    by blast
  have replaced: "result (fst (next (pure_getter (get_prop ''text'')) ?alt (start (Value ?o)) ()))
                = ?alt"
    using next_present [of "start (Value ?o)" ?o "pure_getter (get_prop ''text'')" "()"
                           Undefined "()" ?alt, OF c absent] is_absent
    by blast
  show ?thesis
    using kept replaced by (rule conjI)
qed

text \<open>
  C7. The scenario \<open>start({a: null}).next(o => o.a).next(o => o.missingField, 'fallback')
  .result()\<close>: the first step yields \<open>null\<close>, the second does not invoke its getter (the
  log holds the first getter's call only), and the result is \<open>'fallback'\<close>.
\<close>

theorem null_field_scenario:
  "(let (c1, calls1) = next (logged (get_prop ''a'')) (optional_arg None)
                         (start (Value (JObject [(''a'', Null)]))) [];
        (c2, calls2) = next (logged (get_prop ''missingField''))
                         (optional_arg (Some (Value (JString ''fallback'')))) c1 calls1
    in (result c1, result c2, calls2))
   = (Null, Value (JString ''fallback''), [JObject [(''a'', Null)]])"
  by (simp add: next_def start_def result_def new_NullSafety_def logged_def)

section \<open>\<open>nextWithAny\<close>\<close>

text \<open>
  C3. \<open>nextWithAny\<close> invokes its getter exactly once, on the held value as it is, present
  or not: the state returned is the state after one call of the getter on \<open>source c\<close>, and
  a logging getter logs exactly that one argument. The new container holds the getter's
  result, except that a result of \<open>null\<close> or \<open>undefined\<close> is replaced by the fallback when
  one was supplied (\<open>altResult\<close> is not \<open>undefined\<close>).
\<close>

theorem nextWithAny_invokes_once:
  "snd (nextWithAny getter alt c s) = snd (getter (source c) s)
   \<and> result (fst (nextWithAny getter alt c s)) =
       (let r = fst (getter (source c) s)
        in if (r = Null \<or> r = Undefined) \<and> alt \<noteq> Undefined then alt else r)
   \<and> snd (nextWithAny (logged f) alt c calls) = calls @ [source c]"
  by (simp add: nextWithAny_def result_def new_NullSafety_def logged_def split: prod.split)

theorem nextWithAny_invokes_once_witness:
  "snd (nextWithAny (logged (\<lambda>x. case x of Value o' \<Rightarrow> get_prop ''a'' o' | _ \<Rightarrow> Undefined))
          (Value (JString ''fallback'')) (start Null) []) = [Null]
   \<and> result (fst (nextWithAny
          (logged (\<lambda>x. case x of Value o' \<Rightarrow> get_prop ''a'' o' | _ \<Rightarrow> Undefined))
          (Value (JString ''fallback'')) (start Null) [])) = Value (JString ''fallback'')"
  using nextWithAny_invokes_once
          [of "logged (\<lambda>x. case x of Value o' \<Rightarrow> get_prop ''a'' o' | _ \<Rightarrow> Undefined)"
              "Value (JString ''fallback'')" "start Null" "[]"
              "\<lambda>x. case x of Value o' \<Rightarrow> get_prop ''a'' o' | _ \<Rightarrow> Undefined" "[]"]
  by (simp add: start_def new_NullSafety_def logged_def)

section \<open>Fallbacks\<close>

text \<open>
  C9. In \<open>next\<close> and \<open>nextWithAny\<close> the fallback counts as supplied exactly when
  \<open>altResult\<close> is not \<open>undefined\<close>. Passing \<open>undefined\<close> is the same as omitting the
  argument, and then the absence is preserved: the new container holds the marker carried
  forward or the getter's own result, \<open>null\<close> as \<open>null\<close> and \<open>undefined\<close> as
  \<open>undefined\<close>. For any \<open>altResult\<close> the new held value is that unreplaced value,
  replaced by \<open>altResult\<close> exactly when it is \<open>null\<close> or \<open>undefined\<close> and
  \<open>altResult\<close> is not \<open>undefined\<close>. So \<open>undefined\<close> is never substituted, while
  \<open>null\<close> is: with the fallback \<open>null\<close> an absent step yields \<open>null\<close>, an absent value
  again, also where the unreplaced value was \<open>undefined\<close>.
\<close>

theorem fallback_supplied_iff_not_undefined:
  "next g (optional_arg (Some Undefined)) c s = next g (optional_arg None) c s
   \<and> nextWithAny g' (optional_arg (Some Undefined)) c s = nextWithAny g' (optional_arg None) c s
   \<and> result (fst (next g (optional_arg None) c s)) =
       (case source c of Undefined \<Rightarrow> Undefined | Null \<Rightarrow> Null | Value v \<Rightarrow> fst (g v s))
   \<and> result (fst (nextWithAny g' (optional_arg None) c s)) = fst (g' (source c) s)
   \<and> result (fst (next g alt c s)) =
       (let r = (case source c of Undefined \<Rightarrow> Undefined | Null \<Rightarrow> Null
                 | Value v \<Rightarrow> fst (g v s))
        in if (r = Undefined \<or> r = Null) \<and> alt \<noteq> Undefined then alt else r)
   \<and> result (fst (nextWithAny g' alt c s)) =
       (let r = fst (g' (source c) s)
        in if (r = Undefined \<or> r = Null) \<and> alt \<noteq> Undefined then alt else r)
   \<and> (source c = Null \<or> source c = Undefined \<longrightarrow> result (fst (next g Null c s)) = Null)
   \<and> (fst (g' (source c) s) = Null \<or> fst (g' (source c) s) = Undefined
        \<longrightarrow> result (fst (nextWithAny g' Null c s)) = Null)"
  by (auto simp: next_def nextWithAny_def result_def new_NullSafety_def Let_def
           split: prod.split nullable.split)

theorem fallback_supplied_iff_not_undefined_witness:
  "result (fst (next (pure_getter (get_prop ''a'')) (optional_arg (Some Undefined))
                  (start (Value (JObject [(''a'', Null)]))) ())) = Null
   \<and> result (fst (next (pure_getter (get_prop ''a'')) (optional_arg (Some Null))
                  (start Undefined) ())) = Null
   \<and> result (fst (nextWithAny (pure_getter (\<lambda>x. Undefined)) (optional_arg (Some Null))
                  (start (Value (JString ''x''))) ())) = (Null :: jsval nullable)"
proof -
  let ?o = "JObject [(''a'', Null)]"
  have held: "source (start (Value ?o)) = Value ?o"
    by (simp add: start_def new_NullSafety_def)
  have got: "fst (pure_getter (get_prop ''a'') ?o ()) = Null"
    by (simp add: pure_getter_def)
  have absent: "source (start (Undefined :: jsval nullable)) = Null
                \<or> source (start (Undefined :: jsval nullable)) = Undefined"
    by (simp add: start_def new_NullSafety_def)
  have absent': "fst (pure_getter (\<lambda>x. (Undefined :: jsval nullable))
                        (source (start (Value (JString ''x'')))) ()) = Null
                 \<or> fst (pure_getter (\<lambda>x. (Undefined :: jsval nullable))
                        (source (start (Value (JString ''x'')))) ()) = Undefined"
    by (simp add: pure_getter_def)
  have undefined_passed:
    "result (fst (next (pure_getter (get_prop ''a'')) (optional_arg (Some Undefined))
                  (start (Value ?o)) ())) = Null"
    using fallback_supplied_iff_not_undefined
            [of "pure_getter (get_prop ''a'')" "start (Value ?o)" "()"
                "pure_getter (\<lambda>x. Undefined)" Null]
          held got
    by simp
  have null_passed:
    "result (fst (next (pure_getter (get_prop ''a'')) Null (start Undefined) ())) = Null"
    using fallback_supplied_iff_not_undefined
            [of "pure_getter (get_prop ''a'')" "start Undefined" "()"
                "pure_getter (\<lambda>x. Undefined)" Null]
          absent
    by blast
  have null_passed':
    "result (fst (nextWithAny (pure_getter (\<lambda>x. Undefined)) Null
                    (start (Value (JString ''x''))) ())) = (Null :: jsval nullable)"
    using fallback_supplied_iff_not_undefined
            [of "pure_getter (get_prop ''a'')" "start (Value (JString ''x''))" "()"
                "pure_getter (\<lambda>x. Undefined)" Null]
          absent'
    by blast
  show ?thesis
    using undefined_passed null_passed null_passed' by simp
qed

section \<open>\<open>next\<close> and \<open>nextWithAny\<close> on a present value\<close>

text \<open>
  C10. On a container holding a present value \<open>v\<close>, \<open>next\<close> and \<open>nextWithAny\<close> agree:
  with getters that do the same on \<open>v\<close> and with the same fallback (given or not), they
  return containers with the same held value, and the same state. Hence the two can differ
  only on a container holding \<open>null\<close> or \<open>undefined\<close>.
\<close>

theorem next_nextWithAny_agree_on_present:
  assumes "source c = Value v" and "g' (Value v) s = g v s"
  shows "next g alt c s = nextWithAny g' alt c s"
  using assms by (simp add: next_def nextWithAny_def)

theorem next_nextWithAny_agree_on_present_witness:
  "next (\<lambda>x. pure_getter (\<lambda>y. Null) (Value x)) (Value (JString ''fallback''))
        (start (Value (JString ''held''))) ()
   = nextWithAny (pure_getter (\<lambda>y. Null)) (Value (JString ''fallback''))
        (start (Value (JString ''held''))) ()"
proof -
  have c: "source (start (Value (JString ''held''))) = Value (JString ''held'')"
    by (simp add: start_def new_NullSafety_def)
  have g: "pure_getter (\<lambda>y. (Null :: jsval nullable)) (Value (JString ''held'')) ()
           = (\<lambda>x. pure_getter (\<lambda>y. Null) (Value x)) (JString ''held'') ()"
    by simp
  show ?thesis
    using next_nextWithAny_agree_on_present
            [of "start (Value (JString ''held''))" "JString ''held''"
                "pure_getter (\<lambda>y. Null)" "()" "\<lambda>x. pure_getter (\<lambda>y. Null) (Value x)"
                "Value (JString ''fallback'')", OF c g] .
qed

text \<open>On an absent container the two do differ: \<open>next\<close> skips the getter.\<close>

lemma next_nextWithAny_differ_on_absent:
  "result (fst (next (pure_getter (\<lambda>x. Value (JString ''got''))) Undefined (start Null) ()))
     = Null
   \<and> result (fst (nextWithAny (pure_getter (\<lambda>x. Value (JString ''got''))) Undefined
                    (start (Null :: jsval nullable)) ()))
     = Value (JString ''got'')"
  by (simp add: next_def nextWithAny_def start_def new_NullSafety_def result_def pure_getter_def)

section \<open>Immutability\<close>

lemma result_times_unchanged:
  "this < length h \<Longrightarrow> result_times n this h = Some (replicate n (result (h ! this)), h)"
  by (induction n) (simp_all add: result_ref_def)

lemma next_ref_allocates:
  "this < length h \<Longrightarrow>
     next_ref getter alt this h s =
       Some (length h, h @ [fst (next getter alt (h ! this) s)],
             snd (next getter alt (h ! this) s))"
  by (simp add: next_ref_def allocate_def split: prod.split)

lemma nextWithAny_ref_allocates:
  "this < length h \<Longrightarrow>
     nextWithAny_ref getter alt this h s =
       Some (length h, h @ [fst (nextWithAny getter alt (h ! this) s)],
             snd (nextWithAny getter alt (h ! this) s))"
  by (simp add: nextWithAny_ref_def allocate_def split: prod.split)

lemma result_ref_append:
  "this < length h \<Longrightarrow>
     map_option fst (result_ref this (h @ [obj])) = map_option fst (result_ref this h)"
  by (simp add: result_ref_def nth_append)

lemma start_ref_allocates:
  "start_ref src h = (length h, h @ [start src])"
  by (simp add: start_ref_def allocate_def)

text \<open>
  C8. No operation mutates an existing container. \<open>next\<close> and \<open>nextWithAny\<close> return a
  new container: a reference that did not exist before, valid in the new store, where it
  denotes the container the method built. The new store is the old one with that one
  container added, so every container that existed keeps its held value, the receiver
  among them, and \<open>result\<close> on the receiver returns what it returned before. \<open>start\<close>
  adds its container in the same way. \<open>result\<close> and \<open>resultAlty\<close> leave the store as
  it is, and any number of calls of \<open>result\<close> on the same container return the same
  value.
\<close>

theorem containers_immutable:
  assumes "this < length h"
  shows "(\<exists>r h' s'. next_ref getter alt this h s = Some (r, h', s')
            \<and> r = length h \<and> r \<noteq> this \<and> r < length h' \<and> length h' = Suc (length h)
            \<and> h' ! r = fst (next getter alt (h ! this) s)
            \<and> s' = snd (next getter alt (h ! this) s)
            \<and> take (length h) h' = h \<and> h' ! this = h ! this
            \<and> map_option fst (result_ref this h') = map_option fst (result_ref this h))
       \<and> (\<exists>r h' s'. nextWithAny_ref getter' alt this h s = Some (r, h', s')
            \<and> r = length h \<and> r \<noteq> this \<and> r < length h' \<and> length h' = Suc (length h)
            \<and> h' ! r = fst (nextWithAny getter' alt (h ! this) s)
            \<and> s' = snd (nextWithAny getter' alt (h ! this) s)
            \<and> take (length h) h' = h \<and> h' ! this = h ! this
            \<and> map_option fst (result_ref this h') = map_option fst (result_ref this h))
       \<and> (\<exists>r h'. start_ref src h = (r, h')
            \<and> r = length h \<and> r < length h' \<and> length h' = Suc (length h)
            \<and> h' ! r = start src
            \<and> take (length h) h' = h \<and> h' ! this = h ! this
            \<and> map_option fst (result_ref this h') = map_option fst (result_ref this h))
       \<and> result_ref this h = Some (result (h ! this), h)
       \<and> resultAlty_ref alt this h = Some (resultAlty alt (h ! this), h)
       \<and> result_times n this h = Some (replicate n (result (h ! this)), h)"
proof (intro conjI)
  show "\<exists>r h' s'. next_ref getter alt this h s = Some (r, h', s')
            \<and> r = length h \<and> r \<noteq> this \<and> r < length h' \<and> length h' = Suc (length h)
            \<and> h' ! r = fst (next getter alt (h ! this) s)
            \<and> s' = snd (next getter alt (h ! this) s)
            \<and> take (length h) h' = h \<and> h' ! this = h ! this
            \<and> map_option fst (result_ref this h') = map_option fst (result_ref this h)"
    using assms
    by (simp add: next_ref_allocates result_ref_append nth_append)
  show "\<exists>r h' s'. nextWithAny_ref getter' alt this h s = Some (r, h', s')
            \<and> r = length h \<and> r \<noteq> this \<and> r < length h' \<and> length h' = Suc (length h)
            \<and> h' ! r = fst (nextWithAny getter' alt (h ! this) s)
            \<and> s' = snd (nextWithAny getter' alt (h ! this) s)
            \<and> take (length h) h' = h \<and> h' ! this = h ! this
            \<and> map_option fst (result_ref this h') = map_option fst (result_ref this h)"
    using assms
    by (simp add: nextWithAny_ref_allocates result_ref_append nth_append)
  show "\<exists>r h'. start_ref src h = (r, h')
            \<and> r = length h \<and> r < length h' \<and> length h' = Suc (length h)
            \<and> h' ! r = start src
            \<and> take (length h) h' = h \<and> h' ! this = h ! this
            \<and> map_option fst (result_ref this h') = map_option fst (result_ref this h)"
    using assms
    by (simp add: start_ref_allocates result_ref_append nth_append)
  show "result_ref this h = Some (result (h ! this), h)"
    using assms by (simp add: result_ref_def)
  show "resultAlty_ref alt this h = Some (resultAlty alt (h ! this), h)"
    using assms by (simp add: resultAlty_ref_def)
  show "result_times n this h = Some (replicate n (result (h ! this)), h)"
    using assms by (rule result_times_unchanged)
qed

theorem containers_immutable_witness:
  "result_times 3 0 [start (Value (JString ''held''))]
     = Some (replicate 3 (Value (JString ''held'')), [start (Value (JString ''held''))])
   \<and> (\<exists>r h' s'. next_ref (logged (\<lambda>x. Null)) Undefined 0 [start (Value (JString ''held''))] []
                   = Some (r, h', s')
        \<and> r = 1 \<and> r < length h' \<and> h' ! 0 = start (Value (JString ''held'')))
   \<and> resultAlty_ref Undefined 0 [start (Value (JString ''held''))]
       = Some (Value (JString ''held''), [start (Value (JString ''held''))])"
proof -
  have inside: "0 < length [start (Value (JString ''held''))]"
    by simp
  show ?thesis
    using containers_immutable
            [OF inside, of "logged (\<lambda>x. Null)" Undefined "[]"
               "pure_getter (\<lambda>x. Null)" Undefined 3]
    by (auto simp: result_def resultAlty_def start_def new_NullSafety_def)
qed

end
